theory Spec2Isabelle
  imports Main "HOL-Library.Word"
begin

section \<open>Outcomes of a C++ call\<close>

text \<open>
  The operations of \<^verbatim>\<open>triton_xla_ops.cc\<close> return a \<^verbatim>\<open>LogicalResult\<close>, but some
  of their statements can also stop the program: \<^verbatim>\<open>assert\<close>, \<^verbatim>\<open>llvm::cast\<close> on a
  value of another class, an index past the end of a range, a call through a null
  pointer. An outcome is therefore a returned value, a failed assertion, or undefined
  behaviour. Whether assertions are compiled in is decided by the macro \<^verbatim>\<open>NDEBUG\<close>,
  which the source file does not fix: every function below takes it as the parameter
  \<open>ndebug\<close>.
\<close>

datatype 'a outcome = Returns 'a | AssertionFailure | UndefinedBehavior

definition and_then :: "'a outcome \<Rightarrow> ('a \<Rightarrow> 'b outcome) \<Rightarrow> 'b outcome" where
  "and_then m f =
     (case m of
        Returns x \<Rightarrow> f x
      | AssertionFailure \<Rightarrow> AssertionFailure
      | UndefinedBehavior \<Rightarrow> UndefinedBehavior)"

text \<open>\<^verbatim>\<open>assert(c)\<close>: nothing when compiled out, otherwise the program aborts unless \<open>c\<close>.\<close>

definition cassert :: "bool \<Rightarrow> bool \<Rightarrow> unit outcome" where
  "cassert ndebug c = (if ndebug \<or> c then Returns () else AssertionFailure)"

text \<open>
  \<^verbatim>\<open>llvm::cast<T>(v)\<close>, given what \<^verbatim>\<open>dyn_cast<T>(v)\<close> yields: the cast asserts that the
  value is of class \<^verbatim>\<open>T\<close>; with the assertion compiled out a wrong cast is undefined.
\<close>

definition cast :: "bool \<Rightarrow> 'a option \<Rightarrow> 'a outcome" where
  "cast ndebug d =
     (case d of
        Some v \<Rightarrow> Returns v
      | None \<Rightarrow> if ndebug then UndefinedBehavior else AssertionFailure)"

text \<open>\<^verbatim>\<open>range[i]\<close> on an operand range: the index is asserted to be in range.\<close>

definition at_index :: "bool \<Rightarrow> 'a list \<Rightarrow> nat \<Rightarrow> 'a outcome" where
  "at_index ndebug xs i =
     (if i < length xs then Returns (xs ! i)
      else if ndebug then UndefinedBehavior else AssertionFailure)"

section \<open>Diagnostics\<close>

text \<open>
  A \<^verbatim>\<open>LogicalResult\<close> is success or failure. \<^verbatim>\<open>emitError(msg)\<close> reports the message
  and converts to failure, so a result is paired with the diagnostics emitted on the way.
\<close>

datatype LogicalResult = Success | Failure

type_synonym Diagnosed = "LogicalResult \<times> string list"

definition success :: Diagnosed where
  "success = (Success, [])"

definition emitError :: "string \<Rightarrow> Diagnosed" where
  "emitError msg = (Failure, [msg])"

definition failed :: "Diagnosed \<Rightarrow> bool" where
  "failed r = (fst r = Failure)"

section \<open>Types, attributes and values\<close>

datatype Signedness = Signless | Signed | Unsigned

datatype ElementType =
    Float16Type
  | BFloat16Type
  | Float32Type
  | Float64Type
  | IntegerType nat Signedness
  | IndexType

definition isF16 :: "ElementType \<Rightarrow> bool" where
  "isF16 t = (t = Float16Type)"

definition isBF16 :: "ElementType \<Rightarrow> bool" where
  "isBF16 t = (t = BFloat16Type)"

definition isF32 :: "ElementType \<Rightarrow> bool" where
  "isF32 t = (t = Float32Type)"

text \<open>\<^verbatim>\<open>Type::isInteger(width)\<close>: an integer type of that width, of any signedness.\<close>

definition isInteger :: "ElementType \<Rightarrow> nat \<Rightarrow> bool" where
  "isInteger t width = (case t of IntegerType w s \<Rightarrow> w = width | _ \<Rightarrow> False)"

text \<open>
  An attribute is a nullable handle (\<open>None\<close> is the null attribute) to storage owned by a
  dialect. Encodings are opaque to this file: only their dialect is looked at.
\<close>

record AttributeStorage =
  getDialect :: string
  attrKey :: nat

type_synonym Attribute = "AttributeStorage option"

text \<open>
  What \<^verbatim>\<open>RankedTensorType\<close> and the interface \<^verbatim>\<open>TensorOrMemDesc\<close> expose: a shape of
  \<^verbatim>\<open>int64_t\<close> dimensions, an element type and an encoding.
\<close>

record TensorDesc =
  getShape :: "64 word list"
  getElementType :: ElementType
  getEncoding :: Attribute

definition getRank :: "TensorDesc \<Rightarrow> nat" where
  "getRank t = length (getShape t)"

text \<open>
  Modelled from the spec: the type \<^verbatim>\<open>TiledTensorType\<close> is declared outside the source
  file, which uses its constructor and the accessors \<^verbatim>\<open>getTileType\<close> and
  \<^verbatim>\<open>getOriginalType\<close>. Section 3 gives it two fields: the type of the tile and the type
  of the full tensor the tile is carved from.
\<close>

record TiledTensor =
  getTileType :: TensorDesc
  getOriginalType :: TensorDesc

datatype Type =
    RankedTensorType TensorDesc
  | MemDescType TensorDesc
  | TiledTensorType TiledTensor
  | ScalarType ElementType

definition dyn_cast_RankedTensorType :: "Type \<Rightarrow> TensorDesc option" where
  "dyn_cast_RankedTensorType t = (case t of RankedTensorType d \<Rightarrow> Some d | _ \<Rightarrow> None)"

definition dyn_cast_TensorOrMemDesc :: "Type \<Rightarrow> TensorDesc option" where
  "dyn_cast_TensorOrMemDesc t =
     (case t of RankedTensorType d \<Rightarrow> Some d | MemDescType d \<Rightarrow> Some d | _ \<Rightarrow> None)"

definition dyn_cast_TiledTensorType :: "Type \<Rightarrow> TiledTensor option" where
  "dyn_cast_TiledTensorType t = (case t of TiledTensorType d \<Rightarrow> Some d | _ \<Rightarrow> None)"

text \<open>An SSA value: the name it is printed under and its type.\<close>

record 'ty TypedValue =
  valueName :: string
  getType :: 'ty

type_synonym Value = "Type TypedValue"

text \<open>\<^verbatim>\<open>attr.getDialect()\<close> reads through the handle: undefined on the null attribute.\<close>

definition Attribute_getDialect :: "Attribute \<Rightarrow> string outcome" where
  "Attribute_getDialect a =
     (case a of None \<Rightarrow> UndefinedBehavior | Some s \<Rightarrow> Returns (getDialect s))"

section \<open>The layout collaborator\<close>

text \<open>
  An operation as the verifier sees it: its operands. The collaborator receives the
  operation itself.
\<close>

record Operation =
  getOperands :: "Value list"

type_synonym Location = string

text \<open>
  The interface \<^verbatim>\<open>DialectInferLayoutInterface\<close> is implemented outside this file; its
  two capabilities are parameters. \<open>interfaces d\<close> is what
  \<^verbatim>\<open>dyn_cast<DialectInferLayoutInterface>\<close> yields for the dialect named \<open>d\<close>: \<open>None\<close>
  when the dialect does not implement the interface.
\<close>

record DialectInferLayoutInterface =
  inferDotOpEncoding :: "Attribute \<Rightarrow> nat \<Rightarrow> Attribute \<Rightarrow> Location option \<Rightarrow> Diagnosed"
  verifyDotOpEncodingCompatibility :: "Operation \<Rightarrow> Attribute \<Rightarrow> Attribute \<Rightarrow> Diagnosed"

type_synonym Interfaces = "string \<Rightarrow> DialectInferLayoutInterface option"

section \<open>SparseDotOp\<close>

definition getOperand :: "bool \<Rightarrow> Operation \<Rightarrow> nat \<Rightarrow> Value outcome" where
  "getOperand ndebug op i = at_index ndebug (getOperands op) i"

definition kContractingFactor :: "64 word" where
  "kContractingFactor = 2"

definition kMetadataElementsPerPackedValue :: "64 word" where
  "kMetadataElementsPerPackedValue = 8"

text \<open>
  \<^verbatim>\<open>SparseDotOp::inferReturnTypes\<close>. The output parameter \<^verbatim>\<open>inferredReturnTypes\<close> is
  passed in and returned; the parameters the body never reads (context, attributes,
  properties, regions) are left out.
\<close>

definition SparseDotOp_inferReturnTypes ::
  "bool \<Rightarrow> Interfaces \<Rightarrow> Location option \<Rightarrow> Value list \<Rightarrow> Type list
    \<Rightarrow> (Diagnosed \<times> Type list) outcome" where
  "SparseDotOp_inferReturnTypes ndebug interfaces location operands inferredReturnTypes0 =
     and_then (at_index ndebug operands 2) (\<lambda>v2.
     and_then (cast ndebug (dyn_cast_RankedTensorType (getType v2))) (\<lambda>accTy.
     let inferredReturnTypes = inferredReturnTypes0 @ [RankedTensorType accTy] in
     and_then (at_index ndebug operands 0) (\<lambda>v0.
     and_then (cast ndebug (dyn_cast_TensorOrMemDesc (getType v0))) (\<lambda>aTy.
     let aEnc = getEncoding aTy in
     and_then (at_index ndebug operands 1) (\<lambda>v1.
     and_then (cast ndebug (dyn_cast_TensorOrMemDesc (getType v1))) (\<lambda>bTy.
     let bEnc = getEncoding bTy;
         retEnc = getEncoding accTy
     in
       if aEnc \<noteq> None then
         and_then (cassert ndebug (bEnc \<noteq> None \<and> retEnc \<noteq> None)) (\<lambda>_.
         and_then (Attribute_getDialect retEnc) (\<lambda>dialect.
         case interfaces dialect of
           None \<Rightarrow> UndefinedBehavior
         | Some interface \<Rightarrow>
             let r0 = inferDotOpEncoding interface aEnc 0 retEnc location in
             if failed r0 then Returns ((Failure, snd r0), inferredReturnTypes)
             else
               let r1 = inferDotOpEncoding interface bEnc 1 retEnc location in
               if failed r1 then Returns ((Failure, snd r0 @ snd r1), inferredReturnTypes)
               else Returns ((Success, snd r0 @ snd r1), inferredReturnTypes)))
       else Returns (success, inferredReturnTypes)))))))"

text \<open>
  \<^verbatim>\<open>SparseDotOp::verify\<close>, check by check in the order of the source. The dimensions are
  \<^verbatim>\<open>int64_t\<close> and the two products are taken in 64 bits: the model wraps around where
  C++ leaves the signed overflow undefined.
\<close>

definition SparseDotOp_verify :: "bool \<Rightarrow> Interfaces \<Rightarrow> Operation \<Rightarrow> Diagnosed outcome" where
  "SparseDotOp_verify ndebug interfaces op =
     and_then (getOperand ndebug op 0) (\<lambda>v0.
     and_then (cast ndebug (dyn_cast_TensorOrMemDesc (getType v0))) (\<lambda>aTensorTy.
     let aElemTy = getElementType aTensorTy in
     if \<not> isF16 aElemTy \<and> \<not> isBF16 aElemTy
     then Returns (emitError ''element type of operand A is not supported'')
     else
     let aShape = getShape aTensorTy in
     if length aShape \<noteq> 2 then Returns (emitError ''shape of operand A is incorrect'')
     else
     and_then (getOperand ndebug op 1) (\<lambda>v1.
     and_then (cast ndebug (dyn_cast_TensorOrMemDesc (getType v1))) (\<lambda>bTensorTy.
     let bElemTy = getElementType bTensorTy in
     if \<not> isF16 bElemTy \<and> \<not> isBF16 bElemTy
     then Returns (emitError ''element type of operand B is not supported'')
     else
     let bShape = getShape bTensorTy in
     if length bShape \<noteq> 2 then Returns (emitError ''shape of operand B is incorrect'')
     else
     and_then (getOperand ndebug op 2) (\<lambda>v2.
     and_then (cast ndebug (dyn_cast_RankedTensorType (getType v2))) (\<lambda>cTensorTy.
     let cElemTy = getElementType cTensorTy in
     if \<not> isF32 cElemTy
     then Returns (emitError ''element type of operand C is not supported'')
     else
     let cShape = getShape cTensorTy in
     if length cShape \<noteq> 2 then Returns (emitError ''shape of operand C is incorrect'')
     else
     if aShape ! 0 \<noteq> cShape ! 0 \<or> bShape ! 1 \<noteq> cShape ! 1 \<or>
        bShape ! 0 \<noteq> aShape ! 1 * kContractingFactor
     then Returns (emitError ''operand shape dimensions are incorrect'')
     else
     if aElemTy \<noteq> bElemTy
     then Returns (emitError ''operand element types do not match'')
     else
     and_then (getOperand ndebug op 3) (\<lambda>v3.
     and_then (cast ndebug (dyn_cast_RankedTensorType (getType v3))) (\<lambda>metaTy.
     let metaShape = getShape metaTy in
     if \<not> isInteger (getElementType metaTy) 16 \<or> length metaShape \<noteq> 2
     then Returns (emitError ''sparse metadata tensor is invalid'')
     else
     if metaShape ! 0 \<noteq> aShape ! 0 \<or>
        metaShape ! 1 * kMetadataElementsPerPackedValue \<noteq> aShape ! 1
     then Returns (emitError ''sparse metadata shape dimensions are incorrect'')
     else
     let aEncoding = getEncoding aTensorTy;
         bEncoding = getEncoding bTensorTy
     in
     if aEncoding = None \<and> bEncoding = None then Returns success
     else
     if aEncoding = None \<or> bEncoding = None
     then Returns (emitError ''mismatching encoding between A and B operands'')
     else
     and_then (Attribute_getDialect aEncoding) (\<lambda>dialect.
     and_then (cast ndebug (interfaces dialect)) (\<lambda>interface.
     Returns (verifyDotOpEncodingCompatibility interface op aEncoding bEncoding)))))))))))"

section \<open>The structured-sparse relations in the arithmetic of the source\<close>

text \<open>
  The operand relations of a 2:4 sparse dot as the source tests them: on \<^verbatim>\<open>int64_t\<close>
  dimensions, the products taken in 64 bits. They are stated for rank-2 shapes;
  \<open>dim s i\<close> is dimension \<open>i\<close>. The relations over the integers, further down, imply
  them; the converse needs the products not to overflow.
\<close>

definition dim :: "TensorDesc \<Rightarrow> nat \<Rightarrow> 64 word" where
  "dim t i = getShape t ! i"

definition rows_match :: "TensorDesc \<Rightarrow> TensorDesc \<Rightarrow> bool" where
  "rows_match a c = (dim a 0 = dim c 0)"

definition cols_match :: "TensorDesc \<Rightarrow> TensorDesc \<Rightarrow> bool" where
  "cols_match b c = (dim b 1 = dim c 1)"

definition doubling :: "TensorDesc \<Rightarrow> TensorDesc \<Rightarrow> bool" where
  "doubling a b = (dim b 0 = dim a 1 * 2)"

definition meta_rows :: "TensorDesc \<Rightarrow> TensorDesc \<Rightarrow> bool" where
  "meta_rows a m = (dim m 0 = dim a 0)"

definition meta_cols :: "TensorDesc \<Rightarrow> TensorDesc \<Rightarrow> bool" where
  "meta_cols a m = (dim m 1 * 8 = dim a 1)"

definition elem_types_equal :: "TensorDesc \<Rightarrow> TensorDesc \<Rightarrow> bool" where
  "elem_types_equal a b = (getElementType a = getElementType b)"

definition meta_type_ok :: "TensorDesc \<Rightarrow> bool" where
  "meta_type_ok m = (isInteger (getElementType m) 16 \<and> getRank m = 2)"

definition half_float :: "ElementType \<Rightarrow> bool" where
  "half_float t = (t = Float16Type \<or> t = BFloat16Type)"

text \<open>What the relations leave to the operands one by one: ranks and element kinds.\<close>

definition operand_kinds_ok :: "TensorDesc \<Rightarrow> TensorDesc \<Rightarrow> TensorDesc \<Rightarrow> bool" where
  "operand_kinds_ok a b c =
     (getRank a = 2 \<and> half_float (getElementType a) \<and>
      getRank b = 2 \<and>
      getRank c = 2 \<and> getElementType c = Float32Type)"

text \<open>The seven relations a tuple can violate one at a time.\<close>

definition relations :: "TensorDesc \<Rightarrow> TensorDesc \<Rightarrow> TensorDesc \<Rightarrow> TensorDesc \<Rightarrow> bool list" where
  "relations a b c m =
     [rows_match a c, cols_match b c, doubling a b, meta_rows a m, meta_cols a m,
      elem_types_equal a b, meta_type_ok m]"

definition structured_sparse :: "TensorDesc \<Rightarrow> TensorDesc \<Rightarrow> TensorDesc \<Rightarrow> TensorDesc \<Rightarrow> bool" where
  "structured_sparse a b c m = (operand_kinds_ok a b c \<and> list_all id (relations a b c m))"

text \<open>The operands of an operation, with the classes the casts of the source expect.\<close>

definition sparse_operands ::
  "Operation \<Rightarrow> TensorDesc \<Rightarrow> TensorDesc \<Rightarrow> TensorDesc \<Rightarrow> TensorDesc \<Rightarrow> bool" where
  "sparse_operands op a b c m =
     (case getOperands op of
        [v0, v1, v2, v3] \<Rightarrow>
          dyn_cast_TensorOrMemDesc (getType v0) = Some a \<and>
          dyn_cast_TensorOrMemDesc (getType v1) = Some b \<and>
          getType v2 = RankedTensorType c \<and>
          getType v3 = RankedTensorType m
      | _ \<Rightarrow> False)"

section \<open>The relations over the integers, as the specification words them\<close>

text \<open>A value \<open>v\<close> is representable as a signed integer of \<open>w\<close> bits.\<close>

definition fits :: "nat \<Rightarrow> int \<Rightarrow> bool" where
  "fits w v = (- (2 ^ (w - 1)) \<le> v \<and> v < 2 ^ (w - 1))"

text \<open>
  Dimension \<open>i\<close> of a shape as an integer, when the shape has one. A relation between
  two dimensions is broken when both are there and differ; a dimension that a shape of
  the wrong rank lacks breaks no relation (the rank itself is the seventh relation).
\<close>

definition idim :: "TensorDesc \<Rightarrow> nat \<Rightarrow> int option" where
  "idim t i = (if i < getRank t then Some (sint (getShape t ! i)) else None)"

definition scaled :: "int \<Rightarrow> int option \<Rightarrow> int option" where
  "scaled k x = (case x of None \<Rightarrow> None | Some v \<Rightarrow> Some (v * k))"

definition agree :: "int option \<Rightarrow> int option \<Rightarrow> bool" where
  "agree x y = (case x of None \<Rightarrow> True | Some u \<Rightarrow> (case y of None \<Rightarrow> True | Some v \<Rightarrow> u = v))"

definition int_rows_match :: "TensorDesc \<Rightarrow> TensorDesc \<Rightarrow> bool" where
  "int_rows_match a c = agree (idim a 0) (idim c 0)"

definition int_cols_match :: "TensorDesc \<Rightarrow> TensorDesc \<Rightarrow> bool" where
  "int_cols_match b c = agree (idim b 1) (idim c 1)"

definition int_doubling :: "TensorDesc \<Rightarrow> TensorDesc \<Rightarrow> bool" where
  "int_doubling a b = agree (idim b 0) (scaled 2 (idim a 1))"

definition int_meta_rows :: "TensorDesc \<Rightarrow> TensorDesc \<Rightarrow> bool" where
  "int_meta_rows a m = agree (idim m 0) (idim a 0)"

definition int_meta_cols :: "TensorDesc \<Rightarrow> TensorDesc \<Rightarrow> bool" where
  "int_meta_cols a m = agree (scaled 8 (idim m 1)) (idim a 1)"

definition int_relations ::
  "TensorDesc \<Rightarrow> TensorDesc \<Rightarrow> TensorDesc \<Rightarrow> TensorDesc \<Rightarrow> bool list" where
  "int_relations a b c m =
     [int_rows_match a c, int_cols_match b c, int_doubling a b, int_meta_rows a m,
      int_meta_cols a m, elem_types_equal a b, meta_type_ok m]"

text \<open>
  The two products of the relations, the columns of A times 2 and the columns of the
  metadata times 8, are representable in 64 bits.
\<close>

definition representable :: "int option \<Rightarrow> bool" where
  "representable x = (case x of None \<Rightarrow> True | Some v \<Rightarrow> fits 64 v)"

definition products_fit :: "TensorDesc \<Rightarrow> TensorDesc \<Rightarrow> bool" where
  "products_fit a m =
     (representable (scaled 2 (idim a 1)) \<and> representable (scaled 8 (idim m 1)))"

section \<open>Fixtures\<close>

text \<open>
  The canonical positive tuple: A is 4x8 bf16, B is 16x4 bf16, C is 4x4 f32 and the
  metadata is 4x1 i16, all without encoding.
\<close>

definition tensor :: "64 word list \<Rightarrow> ElementType \<Rightarrow> Attribute \<Rightarrow> TensorDesc" where
  "tensor shape elem enc = \<lparr>getShape = shape, getElementType = elem, getEncoding = enc\<rparr>"

definition ranked_value :: "string \<Rightarrow> TensorDesc \<Rightarrow> Value" where
  "ranked_value name t = \<lparr>valueName = name, getType = RankedTensorType t\<rparr>"

definition sparse_dot :: "TensorDesc \<Rightarrow> TensorDesc \<Rightarrow> TensorDesc \<Rightarrow> TensorDesc \<Rightarrow> Operation" where
  "sparse_dot a b c m =
     \<lparr>getOperands = [ranked_value ''a'' a, ranked_value ''b'' b, ranked_value ''c'' c,
        ranked_value ''meta'' m]\<rparr>"

definition fixA :: TensorDesc where
  "fixA = tensor [4, 8] BFloat16Type None"

definition fixB :: TensorDesc where
  "fixB = tensor [16, 4] BFloat16Type None"

definition fixC :: TensorDesc where
  "fixC = tensor [4, 4] Float32Type None"

definition fixMeta :: TensorDesc where
  "fixMeta = tensor [4, 1] (IntegerType 16 Signless) None"

definition no_interfaces :: Interfaces where
  "no_interfaces d = None"

text \<open>Tuples that break one relation each, the rest as in the canonical tuple.\<close>

definition fixC_rows :: TensorDesc where
  "fixC_rows = tensor [5, 4] Float32Type None"

definition fixC_cols :: TensorDesc where
  "fixC_cols = tensor [4, 5] Float32Type None"

definition fixB_15 :: TensorDesc where
  "fixB_15 = tensor [15, 4] BFloat16Type None"

definition fixB_f16 :: TensorDesc where
  "fixB_f16 = tensor [16, 4] Float16Type None"

definition fixMeta_rows :: TensorDesc where
  "fixMeta_rows = tensor [5, 1] (IntegerType 16 Signless) None"

definition fixMeta_cols :: TensorDesc where
  "fixMeta_cols = tensor [4, 2] (IntegerType 16 Signless) None"

definition fixMeta_i32 :: TensorDesc where
  "fixMeta_i32 = tensor [4, 1] (IntegerType 32 Signless) None"

definition fixMeta_rank0 :: TensorDesc where
  "fixMeta_rank0 = tensor [] (IntegerType 16 Signless) None"

definition fixMeta_rank1 :: TensorDesc where
  "fixMeta_rank1 = tensor [4] (IntegerType 16 Signless) None"

definition fixMeta_rank3 :: TensorDesc where
  "fixMeta_rank3 = tensor [4, 1, 1] (IntegerType 16 Signless) None"

text \<open>
  A tuple whose metadata product overflows: A is 4x0, B is 0x4, C is 4x4 and the
  metadata is 4x2305843009213693952 (the columns are \<open>2 ^ 61\<close>, and eight times that
  is \<open>2 ^ 64\<close>).
\<close>

definition ovA :: TensorDesc where
  "ovA = tensor [4, 0] BFloat16Type None"

definition ovB :: TensorDesc where
  "ovB = tensor [0, 4] BFloat16Type None"

definition ovMeta :: TensorDesc where
  "ovMeta = tensor [4, 2305843009213693952] (IntegerType 16 Signless) None"

text \<open>
  A tuple whose doubling product overflows: the columns of A are \<open>2 ^ 62\<close>, the rows
  of B are the dynamic dimension \<open>- (2 ^ 63)\<close>, the columns of the metadata \<open>2 ^ 59\<close>.
\<close>

definition dynA :: TensorDesc where
  "dynA = tensor [4, 4611686018427387904] BFloat16Type None"

definition dynB :: TensorDesc where
  "dynB = tensor [- 9223372036854775808, 4] BFloat16Type None"

definition dynMeta :: TensorDesc where
  "dynMeta = tensor [4, 576460752303423488] (IntegerType 16 Signless) None"

text \<open>Operands that fail one of the per-operand checks.\<close>

definition fixA_f32 :: TensorDesc where
  "fixA_f32 = tensor [4, 8] Float32Type None"

definition fixA_rank1 :: TensorDesc where
  "fixA_rank1 = tensor [4] Float16Type None"

definition fixB_f32 :: TensorDesc where
  "fixB_f32 = tensor [16, 4] Float32Type None"

definition fixB_rank1 :: TensorDesc where
  "fixB_rank1 = tensor [16] BFloat16Type None"

definition fixC_f16 :: TensorDesc where
  "fixC_f16 = tensor [4, 4] Float16Type None"

definition fixC_rank3 :: TensorDesc where
  "fixC_rank3 = tensor [4, 4, 1] Float32Type None"

text \<open>
  Encoded operands, and two stand-ins for the collaborator: one that accepts every
  query and one that rejects every query.
\<close>

definition enc :: "nat \<Rightarrow> Attribute" where
  "enc k = Some \<lparr>getDialect = ''ttg'', attrKey = k\<rparr>"

definition encA :: TensorDesc where
  "encA = tensor [4, 8] BFloat16Type (enc 0)"

definition encB :: TensorDesc where
  "encB = tensor [16, 4] BFloat16Type (enc 1)"

definition encC :: TensorDesc where
  "encC = tensor [4, 4] Float32Type (enc 2)"

definition accepting :: DialectInferLayoutInterface where
  "accepting =
     \<lparr>inferDotOpEncoding = (\<lambda>operandEncoding opIdx retEncoding location. success),
      verifyDotOpEncodingCompatibility = (\<lambda>op aEncoding bEncoding. success)\<rparr>"

definition rejecting :: DialectInferLayoutInterface where
  "rejecting =
     \<lparr>inferDotOpEncoding =
        (\<lambda>operandEncoding opIdx retEncoding location. emitError ''unexpected operand layout''),
      verifyDotOpEncodingCompatibility =
        (\<lambda>op aEncoding bEncoding. emitError ''incompatible encodings'')\<rparr>"

definition rejecting_B :: DialectInferLayoutInterface where
  "rejecting_B =
     \<lparr>inferDotOpEncoding =
        (\<lambda>operandEncoding opIdx retEncoding location.
           if opIdx = 0 then success else emitError ''unexpected operand layout''),
      verifyDotOpEncodingCompatibility = (\<lambda>op aEncoding bEncoding. success)\<rparr>"

definition only :: "DialectInferLayoutInterface \<Rightarrow> Interfaces" where
  "only interface d = (if d = ''ttg'' then Some interface else None)"


section \<open>TileOp, ExtractOp and InsertOp\<close>

text \<open>
  A \<^verbatim>\<open>TileOp\<close>: the source tensor operand, the attributes \<^verbatim>\<open>offsets\<close> and \<^verbatim>\<open>sizes\<close>
  (\<^verbatim>\<open>DenseI32ArrayAttr\<close>) and \<^verbatim>\<open>strides\<close> (\<^verbatim>\<open>DenseI64ArrayAttr\<close>), the other
  attributes of its dictionary, and its result type (\<^verbatim>\<open>getType()\<close> in the source).
\<close>

type_synonym NamedAttrList = "(string \<times> nat) list"

record TileOp =
  getTensor :: "TensorDesc TypedValue"
  getOffsets :: "32 word list"
  getSizes :: "32 word list"
  getStrides :: "64 word list"
  getAttrs :: NamedAttrList
  getResultType :: TiledTensor

definition TileOp_verify :: "TileOp \<Rightarrow> Diagnosed" where
  "TileOp_verify op =
     (if getRank (getType (getTensor op)) = 0 then emitError ''cannot tile a 0-d tensor''
      else
        let tensor_rank = getRank (getType (getTensor op)) in
        if tensor_rank \<noteq> length (TileOp.getOffsets op) \<or>
           tensor_rank \<noteq> length (getSizes op) \<or>
           tensor_rank \<noteq> length (getStrides op)
        then emitError
          (''mismatch between tensor rank and one or more of '' @ ''offsets/sizes/strides'')
        else success)"

text \<open>
  \<^verbatim>\<open>ExtractOp\<close> and \<^verbatim>\<open>InsertOp\<close>. The rank of a tiled-tensor type,
  \<^verbatim>\<open>TiledTensorType::getRank\<close>, is declared outside the source file: the verifiers take
  it as the parameter \<open>tiledRank\<close>.
\<close>

record ExtractOp =
  getSrc :: "TiledTensor TypedValue"
  getOffsets :: "Value list"
  getResult :: "TensorDesc TypedValue"

definition ExtractOp_verify :: "(TiledTensor \<Rightarrow> nat) \<Rightarrow> ExtractOp \<Rightarrow> Diagnosed" where
  "ExtractOp_verify tiledRank op =
     (if getRank (getType (getResult op)) = 0 then emitError ''cannot extract a 0-d tensor''
      else if tiledRank (getType (ExtractOp.getSrc op)) \<noteq> length (ExtractOp.getOffsets op)
      then emitError ''source tensor rank does not match number of offsets''
      else success)"

record InsertOp =
  getSrc :: "TensorDesc TypedValue"
  getDst :: "TiledTensor TypedValue"
  getOffsets :: "Value list"

definition InsertOp_verify :: "(TiledTensor \<Rightarrow> nat) \<Rightarrow> InsertOp \<Rightarrow> Diagnosed" where
  "InsertOp_verify tiledRank op =
     (if getRank (getType (InsertOp.getSrc op)) = 0 then emitError ''cannot insert a 0-d tensor''
      else if tiledRank (getType (getDst op)) \<noteq> length (InsertOp.getOffsets op)
      then emitError ''destination tensor rank does not match number of offsets''
      else success)"

section \<open>The text of a TileOp\<close>

text \<open>
  Modelled from the spec: the assembly printer and parser of the surrounding framework
  (\<^verbatim>\<open>OpAsmPrinter\<close>, \<^verbatim>\<open>OpAsmParser\<close>, \<^verbatim>\<open>DenseArrayAttr::parse\<close>) are not part of the
  source file. They are modelled on the units of the grammar of section 4.3: an operand
  name, brackets, commas, the colon, integer literals with an optional minus sign, and
  a type or an attribute dictionary as one unit each. As in the framework, an integer
  literal that does not fit the signed width of its attribute is rejected, and an
  operand is resolved against the values defined so far.
\<close>

datatype Token =
    PercentIdentifier string
  | LSquare
  | RSquare
  | Comma
  | Colon
  | Minus
  | IntegerLiteral nat
  | AttrDictionary NamedAttrList
  | TypeToken Type

text \<open>Printing a signed integer: a minus sign and the magnitude, or the magnitude.\<close>

definition printInteger :: "int \<Rightarrow> Token list" where
  "printInteger v = (if v < 0 then [Minus, IntegerLiteral (nat (- v))] else [IntegerLiteral (nat v)])"

fun interleaveComma :: "Token list list \<Rightarrow> Token list" where
  "interleaveComma [] = []"
| "interleaveComma [x] = x"
| "interleaveComma (x # y # ys) = x @ [Comma] @ interleaveComma (y # ys)"

text \<open>
  \<^verbatim>\<open>parseInteger\<close> into a signed integer type of \<open>LENGTH('a)\<close> bits: an optional minus,
  a literal, and the value must fit the type (``integer value too large'' otherwise).
\<close>

definition checkedInteger :: "int \<Rightarrow> Token list \<Rightarrow> ('a::len word \<times> Token list) option" where
  "checkedInteger v rest =
     (if fits LENGTH('a) v then Some (word_of_int v, rest) else None)"

fun parseInteger :: "Token list \<Rightarrow> ('a::len word \<times> Token list) option" where
  "parseInteger (Minus # IntegerLiteral n # rest) = checkedInteger (- int n) rest"
| "parseInteger (IntegerLiteral n # rest) = checkedInteger (int n) rest"
| "parseInteger _ = None"

text \<open>\<^verbatim>\<open>parseCommaSeparatedList\<close> of integers: an element, then elements after commas.\<close>

function parseIntegerList :: "Token list \<Rightarrow> ('a::len word list \<times> Token list) option" where
  "parseIntegerList toks =
     (case parseInteger toks of
        None \<Rightarrow> None
      | Some (v, rest) \<Rightarrow>
          (case rest of
             Comma # rest' \<Rightarrow>
               (case parseIntegerList rest' of
                  None \<Rightarrow> None
                | Some (vs, rest'') \<Rightarrow> Some (v # vs, rest''))
           | _ \<Rightarrow> Some ([v], rest)))"
  by pat_completeness auto

lemma parseInteger_consumes:
  "parseInteger toks = Some (v, rest) \<Longrightarrow> length rest < length toks"
  by (induction toks rule: parseInteger.induct)
     (auto simp add: checkedInteger_def split: if_splits)

termination parseIntegerList
proof (relation "measure length")
  show "wf (measure length)" by simp
next
  fix toks :: "Token list" and x2 :: "'a word \<times> Token list" and v :: "'a word"
    and rest x21 rest'
  assume "parseInteger toks = Some x2" "(v, rest) = x2" "rest = x21 # rest'"
  then have "length rest < length toks"
    using parseInteger_consumes [of toks v rest] by simp
  with \<open>rest = x21 # rest'\<close> show "(rest', toks) \<in> measure length" by simp
qed

declare parseIntegerList.simps [simp del]

text \<open>
  \<^verbatim>\<open>DenseArrayAttr::parse\<close>: a left bracket, then either the right bracket at once (the
  empty array) or a comma-separated list and the right bracket.
\<close>

definition DenseIntArrayAttr_parse :: "Token list \<Rightarrow> ('a::len word list \<times> Token list) option" where
  "DenseIntArrayAttr_parse toks =
     (case toks of
        LSquare # RSquare # rest \<Rightarrow> Some ([], rest)
      | LSquare # toks' \<Rightarrow>
          (case parseIntegerList toks' of
             Some (vs, RSquare # rest) \<Rightarrow> Some (vs, rest)
           | _ \<Rightarrow> None)
      | _ \<Rightarrow> None)"

text \<open>\<^verbatim>\<open>parseDenseIntArrayAttr\<close> of the source: the parsed attribute, or failure when null.\<close>

definition parseDenseIntArrayAttr :: "Token list \<Rightarrow> ('a::len word list \<times> Token list) option" where
  "parseDenseIntArrayAttr toks =
     (case DenseIntArrayAttr_parse toks of None \<Rightarrow> None | Some r \<Rightarrow> Some r)"

definition parseOperand :: "Token list \<Rightarrow> (string \<times> Token list) option" where
  "parseOperand toks = (case toks of PercentIdentifier n # rest \<Rightarrow> Some (n, rest) | _ \<Rightarrow> None)"

definition parseOptionalAttrDict :: "Token list \<Rightarrow> (NamedAttrList \<times> Token list) option" where
  "parseOptionalAttrDict toks =
     (case toks of AttrDictionary d # rest \<Rightarrow> Some (d, rest) | _ \<Rightarrow> Some ([], toks))"

text \<open>\<^verbatim>\<open>parseColonType\<close> into a \<^verbatim>\<open>TiledTensorType\<close>: a colon and a type of that class.\<close>

definition parseColonType :: "Token list \<Rightarrow> (TiledTensor \<times> Token list) option" where
  "parseColonType toks =
     (case toks of
        Colon # TypeToken t # rest \<Rightarrow>
          (case dyn_cast_TiledTensorType t of None \<Rightarrow> None | Some tt \<Rightarrow> Some (tt, rest))
      | _ \<Rightarrow> None)"

text \<open>
  \<^verbatim>\<open>resolveOperand\<close>: the scope gives the type of each value defined so far. A use at
  another type than the definition fails; a name not defined yet becomes a forward
  reference of the requested type.
\<close>

type_synonym Scope = "string \<Rightarrow> Type option"

definition resolveOperand :: "Scope \<Rightarrow> string \<Rightarrow> Type \<Rightarrow> Value option" where
  "resolveOperand scope name ty =
     (case scope name of
        None \<Rightarrow> Some \<lparr>valueName = name, getType = ty\<rparr>
      | Some ty' \<Rightarrow> if ty' = ty then Some \<lparr>valueName = name, getType = ty\<rparr> else None)"

text \<open>\<^verbatim>\<open>TileOp::parse\<close>: the operation parsed, and the text left.\<close>

definition TileOp_parse :: "Scope \<Rightarrow> Token list \<Rightarrow> (TileOp \<times> Token list) option" where
  "TileOp_parse scope toks =
     Option.bind (parseOperand toks) (\<lambda>(src, toks).
     Option.bind (parseDenseIntArrayAttr toks) (\<lambda>(offsets, toks).
     Option.bind (parseDenseIntArrayAttr toks) (\<lambda>(sizes, toks).
     Option.bind (parseDenseIntArrayAttr toks) (\<lambda>(strides, toks).
     Option.bind (parseOptionalAttrDict toks) (\<lambda>(attributes, toks).
     Option.bind (parseColonType toks) (\<lambda>(tiled_tensor_type, toks).
     Option.bind
       (resolveOperand scope src (RankedTensorType (getOriginalType tiled_tensor_type)))
       (\<lambda>operand.
     Some (\<lparr>getTensor =
               \<lparr>valueName = valueName operand, getType = getOriginalType tiled_tensor_type\<rparr>,
             TileOp.getOffsets = offsets,
             getSizes = sizes,
             getStrides = strides,
             getAttrs = attributes,
             getResultType = tiled_tensor_type\<rparr>, toks))))))))"

text \<open>\<^verbatim>\<open>TileOp::print\<close>, in the units the parser reads.\<close>

definition printIntegerList :: "int list \<Rightarrow> Token list" where
  "printIntegerList vs = interleaveComma (map printInteger vs)"

definition printIntegers :: "'a::len word list \<Rightarrow> Token list" where
  "printIntegers ws = printIntegerList (map sint ws)"

definition TileOp_print :: "TileOp \<Rightarrow> Token list" where
  "TileOp_print op =
     [PercentIdentifier (valueName (getTensor op))] @
     [LSquare] @ printIntegers (TileOp.getOffsets op) @
     [RSquare, LSquare] @ printIntegers (getSizes op) @
     [RSquare, LSquare] @ printIntegers (getStrides op) @
     [RSquare, Colon, TypeToken (TiledTensorType (getResultType op))]"

text \<open>
  The grammar of section 4.3 on its own: the text of a tile operation with the given
  operand name, integer literals and tiled-tensor type.
\<close>

definition TileOp_text ::
  "string \<Rightarrow> int list \<Rightarrow> int list \<Rightarrow> int list \<Rightarrow> TiledTensor \<Rightarrow> Token list" where
  "TileOp_text name offsets sizes strides ty =
     [PercentIdentifier name] @
     [LSquare] @ printIntegerList offsets @
     [RSquare, LSquare] @ printIntegerList sizes @
     [RSquare, LSquare] @ printIntegerList strides @
     [RSquare, Colon, TypeToken (TiledTensorType ty)]"

section \<open>Fixtures for the tile operations\<close>

definition scalar0 :: TensorDesc where
  "scalar0 = tensor [] Float32Type None"

definition full1 :: TensorDesc where
  "full1 = tensor [8] Float32Type None"

definition other1 :: TensorDesc where
  "other1 = tensor [4] Float32Type None"

definition tile1 :: TensorDesc where
  "tile1 = tensor [2] Float32Type None"

definition full3 :: TensorDesc where
  "full3 = tensor [8, 8, 8] Float32Type None"

definition tile3 :: TensorDesc where
  "tile3 = tensor [2, 2, 2] Float32Type None"

definition typed :: "string \<Rightarrow> 'ty \<Rightarrow> 'ty TypedValue" where
  "typed name ty = \<lparr>valueName = name, getType = ty\<rparr>"

definition tiled :: "TensorDesc \<Rightarrow> TensorDesc \<Rightarrow> TiledTensor" where
  "tiled tile original = \<lparr>getTileType = tile, getOriginalType = original\<rparr>"

definition tile_op ::
  "TensorDesc TypedValue \<Rightarrow> 32 word list \<Rightarrow> 32 word list \<Rightarrow> 64 word list \<Rightarrow> TiledTensor
    \<Rightarrow> TileOp" where
  "tile_op v offsets sizes strides ty =
     \<lparr>getTensor = v, TileOp.getOffsets = offsets, getSizes = sizes, getStrides = strides,
      getAttrs = [], getResultType = ty\<rparr>"

text \<open>A tile of a tensor of eight elements, and the scope that defines the tensor.\<close>

definition tile_of_full1 :: TileOp where
  "tile_of_full1 = tile_op (typed ''t'' full1) [-1] [2] [4294967296] (tiled tile1 full1)"

definition scope_full1 :: Scope where
  "scope_full1 = Map.empty(''t'' \<mapsto> RankedTensorType full1)"

text \<open>
  A tile operation whose operand has four elements while its result type records a
  tensor of eight, and the scope that defines the operand.
\<close>

definition tile_of_other1 :: TileOp where
  "tile_of_other1 = tile_op (typed ''t'' other1) [0] [2] [1] (tiled tile1 full1)"

definition scope_other1 :: Scope where
  "scope_other1 = Map.empty(''t'' \<mapsto> RankedTensorType other1)"

text \<open>
  A stand-in for \<^verbatim>\<open>TiledTensorType::getRank\<close> in the examples: the rank of the original
  tensor.
\<close>

definition rank_of_original :: "TiledTensor \<Rightarrow> nat" where
  "rank_of_original ty = getRank (getOriginalType ty)"

definition i32_value :: "string \<Rightarrow> Value" where
  "i32_value name = typed name (ScalarType (IntegerType 32 Signless))"

definition extract_op :: "TiledTensor \<Rightarrow> Value list \<Rightarrow> TensorDesc \<Rightarrow> ExtractOp" where
  "extract_op ty offsets result =
     \<lparr>ExtractOp.getSrc = typed ''src'' ty, ExtractOp.getOffsets = offsets,
      getResult = typed ''tile'' result\<rparr>"

definition insert_op :: "TensorDesc \<Rightarrow> TiledTensor \<Rightarrow> Value list \<Rightarrow> InsertOp" where
  "insert_op tile ty offsets =
     \<lparr>InsertOp.getSrc = typed ''tile'' tile, getDst = typed ''dst'' ty,
      InsertOp.getOffsets = offsets\<rparr>"

section \<open>SparseDotOp: helper facts\<close>

lemma and_then_simps [simp]:
  "and_then (Returns x) f = f x"
  "and_then AssertionFailure f = AssertionFailure"
  "and_then UndefinedBehavior f = UndefinedBehavior"
  by (simp_all add: and_then_def)

lemma cast_Some [simp]: "cast ndebug (Some v) = Returns v"
  by (simp add: cast_def)

lemma at_index_in_range [simp]: "i < length xs \<Longrightarrow> at_index ndebug xs i = Returns (xs ! i)"
  by (simp add: at_index_def)

lemmas relation_defs =
  rows_match_def cols_match_def doubling_def meta_rows_def meta_cols_def
  elem_types_equal_def meta_type_ok_def half_float_def dim_def getRank_def

lemmas elem_defs = isF16_def isBF16_def isF32_def

lemmas fixture_defs =
  tensor_def fixA_def fixB_def fixC_def fixMeta_def fixC_rows_def fixC_cols_def fixB_15_def
  fixB_f16_def fixMeta_rows_def fixMeta_cols_def fixMeta_i32_def fixA_f32_def fixA_rank1_def
  fixB_f32_def fixB_rank1_def fixC_f16_def fixC_rank3_def enc_def encA_def encB_def encC_def
  fixMeta_rank0_def fixMeta_rank1_def fixMeta_rank3_def ovA_def ovB_def ovMeta_def
  dynA_def dynB_def dynMeta_def

text \<open>
  The two relations with a product, against their reading in the integers: the integer
  relation always gives the 64-bit one, and they agree when the product does not
  overflow.
\<close>

lemma sint_times_no_overflow:
  fixes x :: "64 word"
  assumes "- (2 ^ 63) \<le> sint x * k" "sint x * k < 2 ^ 63" "- (2 ^ 63) \<le> k" "k < 2 ^ 63"
  shows "sint (x * word_of_int k) = sint x * k"
proof -
  have "sint (word_of_int k :: 64 word) = k"
    using assms(3,4) by (simp add: signed_of_int signed_take_bit_int_eq_self)
  then have "sint (x * word_of_int k) = signed_take_bit 63 (sint x * k)"
    by (simp add: sint_word_ariths)
  then show ?thesis
    using assms(1,2) by (simp add: signed_take_bit_int_eq_self)
qed

lemma doubling_exact:
  assumes "- (2 ^ 62) \<le> sint (dim a 1)" "sint (dim a 1) < 2 ^ 62"
  shows "doubling a b \<longleftrightarrow> sint (dim b 0) = sint (dim a 1) * 2"
proof -
  have "sint (dim a 1 * 2) = sint (dim a 1) * 2"
    using sint_times_no_overflow [of "dim a 1" 2] assms by simp
  then show ?thesis
    unfolding doubling_def by (simp add: word_eq_iff_signed [where ?'a = int])
qed

lemma meta_cols_exact:
  assumes "- (2 ^ 60) \<le> sint (dim m 1)" "sint (dim m 1) < 2 ^ 60"
  shows "meta_cols a m \<longleftrightarrow> sint (dim m 1) * 8 = sint (dim a 1)"
proof -
  have "sint (dim m 1 * 8) = sint (dim m 1) * 8"
    using sint_times_no_overflow [of "dim m 1" 8] assms by simp
  then show ?thesis
    unfolding meta_cols_def by (simp add: word_eq_iff_signed [where ?'a = int])
qed

lemma doubling_from_integers:
  assumes "sint (dim b 0) = sint (dim a 1) * 2"
  shows "doubling a b"
proof -
  from assms
  have "word_of_int (sint (dim b 0)) = (word_of_int (sint (dim a 1) * 2) :: 64 word)"
    by simp
  then show ?thesis by (simp add: doubling_def)
qed

lemma meta_cols_from_integers:
  assumes "sint (dim m 1) * 8 = sint (dim a 1)"
  shows "meta_cols a m"
proof -
  from assms
  have "(word_of_int (sint (dim m 1) * 8) :: 64 word) = word_of_int (sint (dim a 1))"
    by simp
  then show ?thesis by (simp add: meta_cols_def)
qed

lemma sparse_operands_cases:
  assumes "sparse_operands op a b c m"
  obtains v0 v1 v2 v3 where
    "getOperands op = [v0, v1, v2, v3]"
    "dyn_cast_TensorOrMemDesc (getType v0) = Some a"
    "dyn_cast_TensorOrMemDesc (getType v1) = Some b"
    "getType v2 = RankedTensorType c"
    "getType v3 = RankedTensorType m"
  using assms unfolding sparse_operands_def
  by (auto split: list.splits)

lemma sparse_operands_sparse_dot: "sparse_operands (sparse_dot a b c m) a b c m"
  by (simp add: sparse_operands_def sparse_dot_def ranked_value_def dyn_cast_TensorOrMemDesc_def)

text \<open>
  The verifier on four operands of the expected classes: a chain of tests, each on the
  relations of the specification, in the order of the source.
\<close>

lemma verify_unfold:
  assumes ops: "sparse_operands op a b c m"
  shows "SparseDotOp_verify ndebug interfaces op =
    (if \<not> half_float (getElementType a)
     then Returns (emitError ''element type of operand A is not supported'')
     else if getRank a \<noteq> 2 then Returns (emitError ''shape of operand A is incorrect'')
     else if \<not> half_float (getElementType b)
     then Returns (emitError ''element type of operand B is not supported'')
     else if getRank b \<noteq> 2 then Returns (emitError ''shape of operand B is incorrect'')
     else if getElementType c \<noteq> Float32Type
     then Returns (emitError ''element type of operand C is not supported'')
     else if getRank c \<noteq> 2 then Returns (emitError ''shape of operand C is incorrect'')
     else if \<not> (rows_match a c \<and> cols_match b c \<and> doubling a b)
     then Returns (emitError ''operand shape dimensions are incorrect'')
     else if \<not> elem_types_equal a b
     then Returns (emitError ''operand element types do not match'')
     else if \<not> meta_type_ok m
     then Returns (emitError ''sparse metadata tensor is invalid'')
     else if \<not> (meta_rows a m \<and> meta_cols a m)
     then Returns (emitError ''sparse metadata shape dimensions are incorrect'')
     else if getEncoding a = None \<and> getEncoding b = None then Returns success
     else if getEncoding a = None \<or> getEncoding b = None
     then Returns (emitError ''mismatching encoding between A and B operands'')
     else and_then (Attribute_getDialect (getEncoding a)) (\<lambda>dialect.
          and_then (cast ndebug (interfaces dialect)) (\<lambda>interface.
          Returns (verifyDotOpEncodingCompatibility interface op
                     (getEncoding a) (getEncoding b)))))"
proof -
  from ops obtain v0 v1 v2 v3 where v:
    "getOperands op = [v0, v1, v2, v3]"
    "dyn_cast_TensorOrMemDesc (getType v0) = Some a"
    "dyn_cast_TensorOrMemDesc (getType v1) = Some b"
    "getType v2 = RankedTensorType c"
    "getType v3 = RankedTensorType m"
    by (rule sparse_operands_cases)
  show ?thesis
    unfolding SparseDotOp_verify_def getOperand_def
    by (simp add: v relation_defs elem_defs dyn_cast_RankedTensorType_def
        kContractingFactor_def kMetadataElementsPerPackedValue_def Let_def)
qed

text \<open>Past the shape and type checks only the encodings decide.\<close>

lemma structured_sparse_facts:
  assumes "structured_sparse a b c m"
  shows "half_float (getElementType a)" "getRank a = 2"
    "half_float (getElementType b)" "getRank b = 2"
    "getElementType c = Float32Type" "getRank c = 2"
    "rows_match a c" "cols_match b c" "doubling a b" "elem_types_equal a b"
    "meta_type_ok m" "meta_rows a m" "meta_cols a m"
  using assms
  by (auto simp add: structured_sparse_def operand_kinds_ok_def relations_def
      elem_types_equal_def)

lemma verify_encoding_stage:
  assumes ops: "sparse_operands op a b c m"
    and rel: "structured_sparse a b c m"
  shows "SparseDotOp_verify ndebug interfaces op =
     (if getEncoding a = None \<and> getEncoding b = None then Returns success
      else if getEncoding a = None \<or> getEncoding b = None
      then Returns (emitError ''mismatching encoding between A and B operands'')
      else and_then (Attribute_getDialect (getEncoding a)) (\<lambda>dialect.
           and_then (cast ndebug (interfaces dialect)) (\<lambda>interface.
           Returns (verifyDotOpEncodingCompatibility interface op
                      (getEncoding a) (getEncoding b)))))"
  by (simp add: verify_unfold [OF ops] structured_sparse_facts [OF rel])

lemma infer_unfold:
  assumes ops: "sparse_operands op a b c m"
  shows "SparseDotOp_inferReturnTypes ndebug interfaces location (getOperands op) tys =
    (if getEncoding a \<noteq> None then
       and_then (cassert ndebug (getEncoding b \<noteq> None \<and> getEncoding c \<noteq> None)) (\<lambda>_.
       and_then (Attribute_getDialect (getEncoding c)) (\<lambda>dialect.
       case interfaces dialect of
         None \<Rightarrow> UndefinedBehavior
       | Some interface \<Rightarrow>
           let r0 = inferDotOpEncoding interface (getEncoding a) 0 (getEncoding c) location in
           if failed r0 then Returns ((Failure, snd r0), tys @ [RankedTensorType c])
           else
             let r1 = inferDotOpEncoding interface (getEncoding b) 1 (getEncoding c) location in
             if failed r1 then Returns ((Failure, snd r0 @ snd r1), tys @ [RankedTensorType c])
             else Returns ((Success, snd r0 @ snd r1), tys @ [RankedTensorType c])))
     else Returns (success, tys @ [RankedTensorType c]))"
proof -
  from ops obtain v0 v1 v2 v3 where v:
    "getOperands op = [v0, v1, v2, v3]"
    "dyn_cast_TensorOrMemDesc (getType v0) = Some a"
    "dyn_cast_TensorOrMemDesc (getType v1) = Some b"
    "getType v2 = RankedTensorType c"
    "getType v3 = RankedTensorType m"
    by (rule sparse_operands_cases)
  show ?thesis
    unfolding SparseDotOp_inferReturnTypes_def
    by (simp add: v dyn_cast_RankedTensorType_def Let_def)
qed



text \<open>
  Where the products are representable, the relations the source tests give the
  relations over the integers.
\<close>

lemmas int_relation_defs =
  int_rows_match_def int_cols_match_def int_doubling_def int_meta_rows_def int_meta_cols_def
  idim_def scaled_def agree_def representable_def products_fit_def


section \<open>SparseDotOp: the claims\<close>

text \<open>
  C1. For every operand tuple (A, B, C, metadata) that satisfies the structured-sparse
  relations (A and B of rank 2 with the same element type, float16 or bfloat16, C of
  rank 2 and float32, the metadata of rank 2 with a 16-bit integer element type, the
  rows of A and C equal, the columns of B and C equal, the rows of B twice the columns
  of A, the rows of the metadata those of A, eight times the columns of the metadata
  the columns of A) and whose A and B carry no encoding, \<^verbatim>\<open>verify\<close> succeeds and
  \<^verbatim>\<open>inferReturnTypes\<close>, started on an empty list, returns success with exactly one type,
  the type of C. This holds with assertions compiled in or out and whatever the
  collaborator is.
\<close>

theorem SparseDotOp_valid_tuple:
  assumes ops: "sparse_operands op a b c m"
    and rel: "structured_sparse a b c m"
    and enc: "getEncoding a = None" "getEncoding b = None"
  shows "SparseDotOp_verify ndebug interfaces op = Returns success \<and>
         SparseDotOp_inferReturnTypes ndebug interfaces location (getOperands op) [] =
           Returns (success, [RankedTensorType c])"
  by (simp add: verify_encoding_stage [OF ops rel] infer_unfold [OF ops] enc)

theorem SparseDotOp_valid_tuple_witness:
  "structured_sparse fixA fixB fixC fixMeta \<and>
   SparseDotOp_verify False no_interfaces (sparse_dot fixA fixB fixC fixMeta) = Returns success \<and>
   SparseDotOp_inferReturnTypes False no_interfaces None
     (getOperands (sparse_dot fixA fixB fixC fixMeta)) [] =
     Returns (success, [RankedTensorType fixC])"
proof -
  have rel: "structured_sparse fixA fixB fixC fixMeta"
    by (simp add: structured_sparse_def operand_kinds_ok_def relations_def relation_defs
        fixture_defs isInteger_def)
  have enc: "getEncoding fixA = None" "getEncoding fixB = None"
    by (simp_all add: fixture_defs)
  show ?thesis
    using rel SparseDotOp_valid_tuple [OF sparse_operands_sparse_dot rel enc, of False
        no_interfaces None]
    by simp
qed


text \<open>
  The other product overflows as well: with A 4x4611686018427387904 (the columns are
  \<open>2 ^ 62\<close>), B of dynamic rows (the dimension \<open>- (2 ^ 63)\<close>), C 4x4 and metadata
  4x576460752303423488, the doubling relation alone is broken over the integers, and
  \<^verbatim>\<open>verify\<close> succeeds.
\<close>

lemma doubling_overflow_accepted:
  "int_relations dynA dynB fixC dynMeta = [True, True, False, True, True, True, True] \<and>
   SparseDotOp_verify False no_interfaces (sparse_dot dynA dynB fixC dynMeta) = Returns success"
  by (simp add: verify_unfold [OF sparse_operands_sparse_dot]
      int_relations_def int_relation_defs relation_defs fixture_defs isInteger_def)



text \<open>
  C3 as stated: the element types of A, B and C are all checked before any rank, so
  that an operation whose A has a valid element type but not rank 2 and whose B has an
  invalid element type is rejected with the element-type error of B. The source checks
  operand by operand, the rank of A right after the element type of A: on such an
  operation the error is the rank error of A.
\<close>

theorem SparseDotOp_verify_order_counterexample:
  "half_float (getElementType fixA_rank1) \<and> getRank fixA_rank1 \<noteq> 2 \<and>
   \<not> half_float (getElementType fixB_f32) \<and>
   SparseDotOp_verify False no_interfaces (sparse_dot fixA_rank1 fixB_f32 fixC fixMeta) =
     Returns (emitError ''shape of operand A is incorrect'') \<and>
   SparseDotOp_verify False no_interfaces (sparse_dot fixA_rank1 fixB_f32 fixC fixMeta) \<noteq>
     Returns (emitError ''element type of operand B is not supported'')"
  by (simp add: verify_unfold [OF sparse_operands_sparse_dot] half_float_def getRank_def
      fixture_defs emitError_def)

text \<open>
  C3, amended. \<^verbatim>\<open>verify\<close> checks the operands one after the other and stops at the
  first failure: the element type of A (float16 or bfloat16), then the rank of A, then
  the element type of B, then the rank of B, then the element type of C (float32), then
  the rank of C. So an operation whose A has a valid element type but not rank 2 is
  rejected with the rank error of A, whatever B is.
\<close>

theorem SparseDotOp_verify_operand_order:
  assumes ops: "sparse_operands op a b c m"
  shows "(\<not> half_float (getElementType a) \<longrightarrow>
            SparseDotOp_verify ndebug interfaces op =
              Returns (emitError ''element type of operand A is not supported'')) \<and>
         (half_float (getElementType a) \<and> getRank a \<noteq> 2 \<longrightarrow>
            SparseDotOp_verify ndebug interfaces op =
              Returns (emitError ''shape of operand A is incorrect'')) \<and>
         (half_float (getElementType a) \<and> getRank a = 2 \<and>
          \<not> half_float (getElementType b) \<longrightarrow>
            SparseDotOp_verify ndebug interfaces op =
              Returns (emitError ''element type of operand B is not supported'')) \<and>
         (half_float (getElementType a) \<and> getRank a = 2 \<and>
          half_float (getElementType b) \<and> getRank b \<noteq> 2 \<longrightarrow>
            SparseDotOp_verify ndebug interfaces op =
              Returns (emitError ''shape of operand B is incorrect'')) \<and>
         (half_float (getElementType a) \<and> getRank a = 2 \<and>
          half_float (getElementType b) \<and> getRank b = 2 \<and>
          getElementType c \<noteq> Float32Type \<longrightarrow>
            SparseDotOp_verify ndebug interfaces op =
              Returns (emitError ''element type of operand C is not supported'')) \<and>
         (half_float (getElementType a) \<and> getRank a = 2 \<and>
          half_float (getElementType b) \<and> getRank b = 2 \<and>
          getElementType c = Float32Type \<and> getRank c \<noteq> 2 \<longrightarrow>
            SparseDotOp_verify ndebug interfaces op =
              Returns (emitError ''shape of operand C is incorrect''))"
  by (simp add: verify_unfold [OF ops])

theorem SparseDotOp_verify_operand_order_witness:
  "SparseDotOp_verify False no_interfaces (sparse_dot fixA_f32 fixB fixC fixMeta) =
     Returns (emitError ''element type of operand A is not supported'') \<and>
   SparseDotOp_verify False no_interfaces (sparse_dot fixA_rank1 fixB_f32 fixC fixMeta) =
     Returns (emitError ''shape of operand A is incorrect'') \<and>
   SparseDotOp_verify False no_interfaces (sparse_dot fixA fixB_f32 fixC fixMeta) =
     Returns (emitError ''element type of operand B is not supported'') \<and>
   SparseDotOp_verify False no_interfaces (sparse_dot fixA fixB_rank1 fixC fixMeta) =
     Returns (emitError ''shape of operand B is incorrect'') \<and>
   SparseDotOp_verify False no_interfaces (sparse_dot fixA fixB fixC_f16 fixMeta) =
     Returns (emitError ''element type of operand C is not supported'') \<and>
   SparseDotOp_verify False no_interfaces (sparse_dot fixA fixB fixC_rank3 fixMeta) =
     Returns (emitError ''shape of operand C is incorrect'')"
proof -
  have facts:
    "\<not> half_float (getElementType fixA_f32)"
    "half_float (getElementType fixA_rank1)" "getRank fixA_rank1 \<noteq> 2"
    "half_float (getElementType fixA)" "getRank fixA = 2"
    "\<not> half_float (getElementType fixB_f32)"
    "half_float (getElementType fixB_rank1)" "getRank fixB_rank1 \<noteq> 2"
    "half_float (getElementType fixB)" "getRank fixB = 2"
    "getElementType fixC_f16 \<noteq> Float32Type"
    "getElementType fixC_rank3 = Float32Type" "getRank fixC_rank3 \<noteq> 2"
    by (simp_all add: half_float_def getRank_def fixture_defs)
  show ?thesis
    using facts
      SparseDotOp_verify_operand_order [OF sparse_operands_sparse_dot [of fixA_f32 fixB fixC fixMeta],
        where ndebug = False and interfaces = no_interfaces]
      SparseDotOp_verify_operand_order [OF sparse_operands_sparse_dot [of fixA_rank1 fixB_f32 fixC fixMeta],
        where ndebug = False and interfaces = no_interfaces]
      SparseDotOp_verify_operand_order [OF sparse_operands_sparse_dot [of fixA fixB_f32 fixC fixMeta],
        where ndebug = False and interfaces = no_interfaces]
      SparseDotOp_verify_operand_order [OF sparse_operands_sparse_dot [of fixA fixB_rank1 fixC fixMeta],
        where ndebug = False and interfaces = no_interfaces]
      SparseDotOp_verify_operand_order [OF sparse_operands_sparse_dot [of fixA fixB fixC_f16 fixMeta],
        where ndebug = False and interfaces = no_interfaces]
      SparseDotOp_verify_operand_order [OF sparse_operands_sparse_dot [of fixA fixB fixC_rank3 fixMeta],
        where ndebug = False and interfaces = no_interfaces]
    by simp
qed

text \<open>
  C4 as stated: when A is encoded and one of the two layout-inference invocations
  fails, \<^verbatim>\<open>inferReturnTypes\<close> returns failure and leaves the output list without any
  appended type. The source appends the type of C before it looks at the encodings:
  started on the empty list with a collaborator that rejects, it returns failure and
  the list holds the type of C.
\<close>

theorem SparseDotOp_inferReturnTypes_failure_counterexample:
  "SparseDotOp_inferReturnTypes False (only rejecting) None
     (getOperands (sparse_dot encA encB encC fixMeta)) [] =
     Returns (emitError ''unexpected operand layout'', [RankedTensorType encC]) \<and>
   SparseDotOp_inferReturnTypes False (only rejecting_B) None
     (getOperands (sparse_dot encA encB encC fixMeta)) [] =
     Returns (emitError ''unexpected operand layout'', [RankedTensorType encC])"
  by (simp add: infer_unfold [OF sparse_operands_sparse_dot] fixture_defs cassert_def
      Attribute_getDialect_def only_def rejecting_def rejecting_B_def failed_def emitError_def
      success_def)

text \<open>
  C4, amended. When \<^verbatim>\<open>inferReturnTypes\<close> runs with the encodings of A, B and C
  non-null, the dialect of the encoding of C implements the layout interface, and one
  of the two invocations (operand index 0 with the encoding of A, operand index 1 with
  the encoding of B, each against the encoding of C) fails, it returns failure; the
  type of C has been appended to the output list before, so the list returned is the
  list passed in followed by the type of C.
\<close>

theorem SparseDotOp_inferReturnTypes_failure:
  assumes ops: "sparse_operands op a b c m"
    and encs: "getEncoding a = Some ea" "getEncoding b = Some eb" "getEncoding c = Some ec"
    and iface: "interfaces (getDialect ec) = Some interface"
    and fails: "failed (inferDotOpEncoding interface (Some ea) 0 (Some ec) location) \<or>
                failed (inferDotOpEncoding interface (Some eb) 1 (Some ec) location)"
  shows "\<exists>diagnostics.
           SparseDotOp_inferReturnTypes ndebug interfaces location (getOperands op) tys =
             Returns ((Failure, diagnostics), tys @ [RankedTensorType c])"
  using fails
  by (auto simp add: infer_unfold [OF ops] encs iface cassert_def Attribute_getDialect_def
      Let_def)

theorem SparseDotOp_inferReturnTypes_failure_witness:
  "failed (inferDotOpEncoding rejecting_B (enc 1) 1 (enc 2) None) \<and>
   (\<exists>diagnostics.
      SparseDotOp_inferReturnTypes False (only rejecting_B) None
        (getOperands (sparse_dot encA encB encC fixMeta)) [] =
        Returns ((Failure, diagnostics), [] @ [RankedTensorType encC]))"
proof -
  have encs:
    "getEncoding encA = Some \<lparr>getDialect = ''ttg'', attrKey = 0\<rparr>"
    "getEncoding encB = Some \<lparr>getDialect = ''ttg'', attrKey = 1\<rparr>"
    "getEncoding encC = Some \<lparr>getDialect = ''ttg'', attrKey = 2\<rparr>"
    by (simp_all add: fixture_defs)
  have iface: "only rejecting_B (getDialect \<lparr>getDialect = ''ttg'', attrKey = 2\<rparr>) = Some rejecting_B"
    by (simp add: only_def)
  have fails: "failed (inferDotOpEncoding rejecting_B (enc 1) 1 (enc 2) None)"
    by (simp add: rejecting_B_def failed_def emitError_def)
  then have "failed (inferDotOpEncoding rejecting_B
        (Some \<lparr>getDialect = ''ttg'', attrKey = 0\<rparr>) 0
        (Some \<lparr>getDialect = ''ttg'', attrKey = 2\<rparr>) None) \<or>
      failed (inferDotOpEncoding rejecting_B
        (Some \<lparr>getDialect = ''ttg'', attrKey = 1\<rparr>) 1
        (Some \<lparr>getDialect = ''ttg'', attrKey = 2\<rparr>) None)"
    by (simp add: enc_def)
  from SparseDotOp_inferReturnTypes_failure [where interfaces = "only rejecting_B"
      and interface = rejecting_B and ndebug = False and tys = "[]",
      OF sparse_operands_sparse_dot encs iface this] fails
  show ?thesis by blast
qed

text \<open>
  C5. For every operation that passes the element-type, rank, shape and metadata
  checks: when the encodings of A and B are both null, \<^verbatim>\<open>verify\<close> succeeds; when
  exactly one is null, it fails with the mismatching-encoding error; when both are
  there and the dialect of the encoding of A provides the collaborator, it returns what
  the compatibility capability of the collaborator returns for the operation and the
  two encodings, unchanged. (The source obtains the collaborator by an unconditional
  cast: on a dialect without the interface the cast fails its assertion.)
\<close>

theorem SparseDotOp_verify_encodings:
  assumes ops: "sparse_operands op a b c m"
    and rel: "structured_sparse a b c m"
  shows "(getEncoding a = None \<and> getEncoding b = None \<longrightarrow>
            SparseDotOp_verify ndebug interfaces op = Returns success) \<and>
         ((getEncoding a = None) \<noteq> (getEncoding b = None) \<longrightarrow>
            SparseDotOp_verify ndebug interfaces op =
              Returns (emitError ''mismatching encoding between A and B operands'')) \<and>
         (getEncoding a = Some ea \<and> getEncoding b = Some eb \<longrightarrow>
            SparseDotOp_verify ndebug interfaces op =
              (case interfaces (getDialect ea) of
                 Some interface \<Rightarrow>
                   Returns (verifyDotOpEncodingCompatibility interface op (Some ea) (Some eb))
               | None \<Rightarrow> if ndebug then UndefinedBehavior else AssertionFailure))"
  unfolding verify_encoding_stage [OF ops rel]
  by (auto simp add: Attribute_getDialect_def cast_def split: option.splits)

theorem SparseDotOp_verify_encodings_witness:
  "SparseDotOp_verify False (only accepting) (sparse_dot fixA fixB fixC fixMeta) =
     Returns success \<and>
   SparseDotOp_verify False (only accepting) (sparse_dot encA fixB fixC fixMeta) =
     Returns (emitError ''mismatching encoding between A and B operands'') \<and>
   SparseDotOp_verify False (only accepting) (sparse_dot fixA encB fixC fixMeta) =
     Returns (emitError ''mismatching encoding between A and B operands'') \<and>
   SparseDotOp_verify False (only accepting) (sparse_dot encA encB fixC fixMeta) =
     Returns success \<and>
   SparseDotOp_verify False (only rejecting) (sparse_dot encA encB fixC fixMeta) =
     Returns (emitError ''incompatible encodings'') \<and>
   SparseDotOp_verify False no_interfaces (sparse_dot encA encB fixC fixMeta) =
     AssertionFailure"
proof -
  have rel:
    "structured_sparse fixA fixB fixC fixMeta" "structured_sparse encA fixB fixC fixMeta"
    "structured_sparse fixA encB fixC fixMeta" "structured_sparse encA encB fixC fixMeta"
    by (simp_all add: structured_sparse_def operand_kinds_ok_def relations_def relation_defs
        fixture_defs isInteger_def)
  have encs:
    "getEncoding fixA = None" "getEncoding fixB = None"
    "getEncoding encA = Some \<lparr>getDialect = ''ttg'', attrKey = 0\<rparr>"
    "getEncoding encB = Some \<lparr>getDialect = ''ttg'', attrKey = 1\<rparr>"
    by (simp_all add: fixture_defs)
  show ?thesis
    using encs
      SparseDotOp_verify_encodings [OF sparse_operands_sparse_dot rel(1),
        where ndebug = False and interfaces = "only accepting"]
      SparseDotOp_verify_encodings [OF sparse_operands_sparse_dot rel(2),
        where ndebug = False and interfaces = "only accepting"]
      SparseDotOp_verify_encodings [OF sparse_operands_sparse_dot rel(3),
        where ndebug = False and interfaces = "only accepting"]
      SparseDotOp_verify_encodings [OF sparse_operands_sparse_dot rel(4),
        where ndebug = False and interfaces = "only accepting"
          and ea = "\<lparr>getDialect = ''ttg'', attrKey = 0\<rparr>"
          and eb = "\<lparr>getDialect = ''ttg'', attrKey = 1\<rparr>"]
      SparseDotOp_verify_encodings [OF sparse_operands_sparse_dot rel(4),
        where ndebug = False and interfaces = "only rejecting"
          and ea = "\<lparr>getDialect = ''ttg'', attrKey = 0\<rparr>"
          and eb = "\<lparr>getDialect = ''ttg'', attrKey = 1\<rparr>"]
      SparseDotOp_verify_encodings [OF sparse_operands_sparse_dot rel(4),
        where ndebug = False and interfaces = no_interfaces
          and ea = "\<lparr>getDialect = ''ttg'', attrKey = 0\<rparr>"
          and eb = "\<lparr>getDialect = ''ttg'', attrKey = 1\<rparr>"]
    by (simp add: only_def no_interfaces_def accepting_def rejecting_def)
qed

text \<open>
  C9. \<^verbatim>\<open>inferReturnTypes\<close> has two unchecked preconditions when the encoding of A is
  non-null: (1) the encodings of B and of the result C are non-null, which only an
  assertion states; (2) the dialect of the result encoding implements the layout
  interface, whose pointer is used without a null check. Under both the call returns
  (no failed assertion, no undefined behaviour). When (1) is broken and assertions are
  compiled in, the assertion fails; when they are compiled out and the result encoding
  is null, or when the encoding is there and (2) is broken, the behaviour is undefined.
  The function has no failure of its own for a broken precondition: whenever failure is
  returned, the result encoding is there, its dialect implements the interface, the
  encoding of B is there unless assertions are compiled out, and one of the two
  invocations of the collaborator failed.
\<close>

theorem SparseDotOp_inferReturnTypes_unchecked:
  assumes ops: "sparse_operands op a b c m"
    and aenc: "getEncoding a = Some ea"
  shows
    "(getEncoding b \<noteq> None \<and> getEncoding c = Some ec \<and>
      interfaces (getDialect ec) = Some interface \<longrightarrow>
        (\<exists>r. SparseDotOp_inferReturnTypes ndebug interfaces location (getOperands op) tys
               = Returns r)) \<and>
     (\<not> ndebug \<and> (getEncoding b = None \<or> getEncoding c = None) \<longrightarrow>
        SparseDotOp_inferReturnTypes ndebug interfaces location (getOperands op) tys
          = AssertionFailure) \<and>
     (ndebug \<and> getEncoding c = None \<longrightarrow>
        SparseDotOp_inferReturnTypes ndebug interfaces location (getOperands op) tys
          = UndefinedBehavior) \<and>
     ((ndebug \<or> getEncoding b \<noteq> None) \<and> getEncoding c = Some ec \<and>
      interfaces (getDialect ec) = None \<longrightarrow>
        SparseDotOp_inferReturnTypes ndebug interfaces location (getOperands op) tys
          = UndefinedBehavior) \<and>
     (SparseDotOp_inferReturnTypes ndebug interfaces location (getOperands op) tys
        = Returns ((Failure, diagnostics), tys') \<longrightarrow>
        (\<exists>ec' interface'.
           getEncoding c = Some ec' \<and> interfaces (getDialect ec') = Some interface' \<and>
           (ndebug \<or> getEncoding b \<noteq> None) \<and>
           (failed (inferDotOpEncoding interface' (getEncoding a) 0 (getEncoding c) location) \<or>
            failed (inferDotOpEncoding interface' (getEncoding b) 1 (getEncoding c) location))))"
  by (auto simp add: infer_unfold [OF ops] aenc cassert_def Attribute_getDialect_def Let_def
      split: option.splits if_splits)

theorem SparseDotOp_inferReturnTypes_unchecked_witness:
  "(\<exists>r. SparseDotOp_inferReturnTypes False (only accepting) None
          (getOperands (sparse_dot encA encB encC fixMeta)) [] = Returns r) \<and>
   SparseDotOp_inferReturnTypes False (only accepting) None
     (getOperands (sparse_dot encA fixB encC fixMeta)) [] = AssertionFailure \<and>
   SparseDotOp_inferReturnTypes True (only accepting) None
     (getOperands (sparse_dot encA encB fixC fixMeta)) [] = UndefinedBehavior \<and>
   SparseDotOp_inferReturnTypes False no_interfaces None
     (getOperands (sparse_dot encA encB encC fixMeta)) [] = UndefinedBehavior \<and>
   (\<exists>ec' interface'.
      getEncoding encC = Some ec' \<and> only rejecting (getDialect ec') = Some interface' \<and>
      (failed (inferDotOpEncoding interface' (getEncoding encA) 0 (getEncoding encC) None) \<or>
       failed (inferDotOpEncoding interface' (getEncoding encB) 1 (getEncoding encC) None)))"
proof -
  have encs:
    "getEncoding encA = Some \<lparr>getDialect = ''ttg'', attrKey = 0\<rparr>"
    "getEncoding encB = Some \<lparr>getDialect = ''ttg'', attrKey = 1\<rparr>"
    "getEncoding encC = Some \<lparr>getDialect = ''ttg'', attrKey = 2\<rparr>"
    "getEncoding fixB = None" "getEncoding fixC = None"
    by (simp_all add: fixture_defs)
  have ifaces:
    "only accepting (getDialect \<lparr>getDialect = ''ttg'', attrKey = 2\<rparr>) = Some accepting"
    "no_interfaces (getDialect \<lparr>getDialect = ''ttg'', attrKey = 2\<rparr>) = None"
    by (simp_all add: only_def no_interfaces_def)
  have rejected:
    "SparseDotOp_inferReturnTypes False (only rejecting) None
       (getOperands (sparse_dot encA encB encC fixMeta)) [] =
       Returns ((Failure, [''unexpected operand layout'']), [RankedTensorType encC])"
    by (simp add: infer_unfold [OF sparse_operands_sparse_dot] fixture_defs cassert_def
        Attribute_getDialect_def only_def rejecting_def failed_def emitError_def)
  note inst = SparseDotOp_inferReturnTypes_unchecked [OF sparse_operands_sparse_dot encs(1),
      where location = None and tys = "[]"]
  have 1: "\<exists>r. SparseDotOp_inferReturnTypes False (only accepting) None
      (getOperands (sparse_dot encA encB encC fixMeta)) [] = Returns r"
    using inst [where b = encB and c = encC and ndebug = False and interfaces = "only accepting"
        and ec = "\<lparr>getDialect = ''ttg'', attrKey = 2\<rparr>" and interface = accepting]
      encs ifaces by simp
  have 2: "SparseDotOp_inferReturnTypes False (only accepting) None
      (getOperands (sparse_dot encA fixB encC fixMeta)) [] = AssertionFailure"
    using inst [where b = fixB and c = encC and ndebug = False and interfaces = "only accepting"]
      encs by simp
  have 3: "SparseDotOp_inferReturnTypes True (only accepting) None
      (getOperands (sparse_dot encA encB fixC fixMeta)) [] = UndefinedBehavior"
    using inst [where b = encB and c = fixC and ndebug = True and interfaces = "only accepting"]
      encs by simp
  have 4: "SparseDotOp_inferReturnTypes False no_interfaces None
      (getOperands (sparse_dot encA encB encC fixMeta)) [] = UndefinedBehavior"
    using inst [where b = encB and c = encC and ndebug = False and interfaces = no_interfaces
        and ec = "\<lparr>getDialect = ''ttg'', attrKey = 2\<rparr>"]
      encs ifaces by simp
  have 5: "\<exists>ec' interface'.
      getEncoding encC = Some ec' \<and> only rejecting (getDialect ec') = Some interface' \<and>
      (failed (inferDotOpEncoding interface' (getEncoding encA) 0 (getEncoding encC) None) \<or>
       failed (inferDotOpEncoding interface' (getEncoding encB) 1 (getEncoding encC) None))"
    using inst [where b = encB and c = encC and ndebug = False and interfaces = "only rejecting"
        and diagnostics = "[''unexpected operand layout'']" and tys' = "[RankedTensorType encC]"]
      rejected by blast
  from 1 2 3 4 5 show ?thesis by blast
qed

section \<open>TileOp, ExtractOp and InsertOp: verification\<close>

lemmas tile_fixture_defs =
  tensor_def scalar0_def full1_def other1_def tile1_def full3_def tile3_def typed_def tiled_def
  tile_op_def tile_of_full1_def scope_full1_def tile_of_other1_def scope_other1_def
  rank_of_original_def i32_value_def extract_op_def insert_op_def

text \<open>
  C7. \<^verbatim>\<open>TileOp::verify\<close> fails when the source tensor has rank 0; otherwise it fails,
  with one error that names offsets, sizes and strides together, when the length of any
  of the three differs from the rank of the source; and it succeeds when the rank is at
  least 1 and the three lengths equal it.
\<close>

theorem TileOp_verify_cases:
  "(getRank (getType (getTensor op)) = 0 \<longrightarrow>
      TileOp_verify op = emitError ''cannot tile a 0-d tensor'') \<and>
   (getRank (getType (getTensor op)) \<noteq> 0 \<and>
    (length (TileOp.getOffsets op) \<noteq> getRank (getType (getTensor op)) \<or>
     length (getSizes op) \<noteq> getRank (getType (getTensor op)) \<or>
     length (getStrides op) \<noteq> getRank (getType (getTensor op))) \<longrightarrow>
      TileOp_verify op =
        emitError ''mismatch between tensor rank and one or more of offsets/sizes/strides'') \<and>
   (1 \<le> getRank (getType (getTensor op)) \<and>
    length (TileOp.getOffsets op) = getRank (getType (getTensor op)) \<and>
    length (getSizes op) = getRank (getType (getTensor op)) \<and>
    length (getStrides op) = getRank (getType (getTensor op)) \<longrightarrow>
      TileOp_verify op = success)"
  by (auto simp add: TileOp_verify_def Let_def)

theorem TileOp_verify_cases_witness:
  "TileOp_verify (tile_op (typed ''t'' scalar0) [] [] [] (tiled scalar0 scalar0)) =
     emitError ''cannot tile a 0-d tensor'' \<and>
   TileOp_verify (tile_op (typed ''t'' full3) [0, 0] [2, 2, 2] [1, 1, 1] (tiled tile3 full3)) =
     emitError ''mismatch between tensor rank and one or more of offsets/sizes/strides'' \<and>
   TileOp_verify (tile_op (typed ''t'' full3) [0, 0, 0] [2, 2] [1, 1, 1] (tiled tile3 full3)) =
     emitError ''mismatch between tensor rank and one or more of offsets/sizes/strides'' \<and>
   TileOp_verify (tile_op (typed ''t'' full3) [0, 0, 0] [2, 2, 2] [1, 1] (tiled tile3 full3)) =
     emitError ''mismatch between tensor rank and one or more of offsets/sizes/strides'' \<and>
   TileOp_verify (tile_op (typed ''t'' full3) [0, 0, 0] [2, 2, 2] [1, 1, 1] (tiled tile3 full3)) =
     success"
  using
    TileOp_verify_cases [of "tile_op (typed ''t'' scalar0) [] [] [] (tiled scalar0 scalar0)"]
    TileOp_verify_cases
      [of "tile_op (typed ''t'' full3) [0, 0] [2, 2, 2] [1, 1, 1] (tiled tile3 full3)"]
    TileOp_verify_cases
      [of "tile_op (typed ''t'' full3) [0, 0, 0] [2, 2] [1, 1, 1] (tiled tile3 full3)"]
    TileOp_verify_cases
      [of "tile_op (typed ''t'' full3) [0, 0, 0] [2, 2, 2] [1, 1] (tiled tile3 full3)"]
    TileOp_verify_cases
      [of "tile_op (typed ''t'' full3) [0, 0, 0] [2, 2, 2] [1, 1, 1] (tiled tile3 full3)"]
  by (simp add: getRank_def tile_fixture_defs)

text \<open>
  C8. \<^verbatim>\<open>ExtractOp::verify\<close> succeeds exactly when the result tensor has rank at least 1
  and the number of offset operands equals the rank of the source tiled tensor (the
  rank of the result plays no other part); \<^verbatim>\<open>InsertOp::verify\<close> succeeds exactly when
  the source tile has rank at least 1 and the number of offset operands equals the rank
  of the destination tiled tensor. A result of rank 0, for the one, and a source of
  rank 0, for the other, are rejected. This holds whatever the rank of a tiled-tensor
  type is defined to be.
\<close>

theorem ExtractOp_InsertOp_verify:
  "(ExtractOp_verify tiledRank e = success \<longleftrightarrow>
      1 \<le> getRank (getType (getResult e)) \<and>
      length (ExtractOp.getOffsets e) = tiledRank (getType (ExtractOp.getSrc e))) \<and>
   (InsertOp_verify tiledRank i = success \<longleftrightarrow>
      1 \<le> getRank (getType (InsertOp.getSrc i)) \<and>
      length (InsertOp.getOffsets i) = tiledRank (getType (getDst i))) \<and>
   (getRank (getType (getResult e)) = 0 \<longrightarrow>
      ExtractOp_verify tiledRank e = emitError ''cannot extract a 0-d tensor'') \<and>
   (getRank (getType (InsertOp.getSrc i)) = 0 \<longrightarrow>
      InsertOp_verify tiledRank i = emitError ''cannot insert a 0-d tensor'')"
  by (auto simp add: ExtractOp_verify_def InsertOp_verify_def emitError_def success_def)

theorem ExtractOp_InsertOp_verify_witness:
  "ExtractOp_verify rank_of_original
     (extract_op (tiled tile3 full3) [i32_value ''i'', i32_value ''j'', i32_value ''k''] tile3)
     = success \<and>
   ExtractOp_verify rank_of_original
     (extract_op (tiled tile1 full3) [i32_value ''i''] tile1) \<noteq> success \<and>
   InsertOp_verify rank_of_original
     (insert_op tile3 (tiled tile3 full3) [i32_value ''i'', i32_value ''j'', i32_value ''k''])
     = success \<and>
   InsertOp_verify rank_of_original
     (insert_op tile1 (tiled tile1 full3) [i32_value ''i'']) \<noteq> success \<and>
   ExtractOp_verify rank_of_original (extract_op (tiled scalar0 scalar0) [] scalar0) =
     emitError ''cannot extract a 0-d tensor'' \<and>
   InsertOp_verify rank_of_original (insert_op scalar0 (tiled scalar0 scalar0) []) =
     emitError ''cannot insert a 0-d tensor''"
  using
    ExtractOp_InsertOp_verify [of rank_of_original
      "extract_op (tiled tile3 full3) [i32_value ''i'', i32_value ''j'', i32_value ''k''] tile3"
      "insert_op tile3 (tiled tile3 full3) [i32_value ''i'', i32_value ''j'', i32_value ''k'']"]
    ExtractOp_InsertOp_verify [of rank_of_original
      "extract_op (tiled tile1 full3) [i32_value ''i''] tile1"
      "insert_op tile1 (tiled tile1 full3) [i32_value ''i'']"]
    ExtractOp_InsertOp_verify [of rank_of_original
      "extract_op (tiled scalar0 scalar0) [] scalar0"
      "insert_op scalar0 (tiled scalar0 scalar0) []"]
  by (simp add: getRank_def tile_fixture_defs)

section \<open>The text of a TileOp: parsing what was printed\<close>

lemma parseInteger_printInteger:
  "parseInteger (printInteger v @ rest) = checkedInteger v rest"
  by (simp add: printInteger_def)

lemma printIntegerList_Cons:
  "printIntegerList (v # vs) =
     (if vs = [] then printInteger v else printInteger v @ Comma # printIntegerList vs)"
  by (cases vs) (simp_all add: printIntegerList_def)

text \<open>
  A printed list of integers, followed by anything but a comma, parses back to the
  integers when each fits the width, and is rejected otherwise.
\<close>

lemma parseIntegerList_print:
  assumes "vs \<noteq> []" and "\<forall>rest'. rest \<noteq> Comma # rest'"
  shows "parseIntegerList (printIntegerList vs @ rest) =
           (if list_all (fits LENGTH('a)) vs
            then Some (map word_of_int vs :: 'a::len word list, rest) else None)"
  using assms
proof (induction vs)
  case Nil
  then show ?case by simp
next
  case (Cons v vs)
  show ?case
  proof (cases "vs = []")
    case True
    with Cons.prems(2) show ?thesis
      by (subst parseIntegerList.simps)
         (auto simp add: printIntegerList_Cons parseInteger_printInteger checkedInteger_def
            split: list.splits Token.splits)
  next
    case False
    with Cons.IH Cons.prems(2) show ?thesis
      by (subst parseIntegerList.simps)
         (simp add: printIntegerList_Cons parseInteger_printInteger checkedInteger_def)
  qed
qed

lemma printIntegerList_head:
  "vs \<noteq> [] \<Longrightarrow> \<exists>t ts. printIntegerList vs = t # ts \<and> t \<noteq> RSquare"
  by (cases vs) (auto simp add: printIntegerList_Cons printInteger_def)

lemma array_parse_print:
  "DenseIntArrayAttr_parse (LSquare # printIntegerList vs @ RSquare # rest) =
     (if list_all (fits LENGTH('a)) vs
      then Some (map word_of_int vs :: 'a::len word list, rest) else None)"
proof (cases "vs = []")
  case True
  then show ?thesis
    by (simp add: DenseIntArrayAttr_parse_def printIntegerList_def)
next
  case False
  from printIntegerList_head [OF False] obtain t ts
    where t: "printIntegerList vs = t # ts" "t \<noteq> RSquare" by blast
  have "DenseIntArrayAttr_parse (LSquare # printIntegerList vs @ RSquare # rest) =
      (case parseIntegerList (printIntegerList vs @ RSquare # rest) of
         Some (ws, RSquare # rest') \<Rightarrow> Some (ws :: 'a word list, rest')
       | _ \<Rightarrow> None)"
    using t by (cases t) (simp_all add: DenseIntArrayAttr_parse_def)
  also have "\<dots> = (if list_all (fits LENGTH('a)) vs
      then Some (map word_of_int vs, rest) else None)"
    by (simp add: parseIntegerList_print [OF False])
  finally show ?thesis .
qed

text \<open>The parser on a text of the grammar: it succeeds exactly on literals that fit.\<close>

lemma TileOp_parse_text:
  "TileOp_parse scope (TileOp_text name offsets sizes strides ty @ rest) =
     (if list_all (fits 32) offsets \<and> list_all (fits 32) sizes \<and> list_all (fits 64) strides
      then
        (case resolveOperand scope name (RankedTensorType (getOriginalType ty)) of
           None \<Rightarrow> None
         | Some v \<Rightarrow>
             Some (\<lparr>getTensor = \<lparr>valueName = valueName v, getType = getOriginalType ty\<rparr>,
                    TileOp.getOffsets = map word_of_int offsets,
                    getSizes = map word_of_int sizes,
                    getStrides = map word_of_int strides,
                    getAttrs = [],
                    getResultType = ty\<rparr>, rest))
      else None)"
  by (simp add: TileOp_parse_def TileOp_text_def parseOperand_def parseDenseIntArrayAttr_def
      array_parse_print parseOptionalAttrDict_def parseColonType_def
      dyn_cast_TiledTensorType_def split: option.splits)

lemma fits_sint: "fits LENGTH('a) (sint (w :: 'a::len word))"
  using sint_ge [of w] sint_lt [of w] by (simp add: fits_def)

lemma list_all_fits_sint: "list_all (fits LENGTH('a)) (map sint (ws :: 'a::len word list))"
  by (induction ws) (simp_all add: fits_sint)

lemma map_word_of_int_sint: "map (word_of_int \<circ> sint) ws = (ws :: 'a::len word list)"
  by (induction ws) simp_all

lemma map_sint_word_of_int:
  "list_all (fits LENGTH('a)) vs \<Longrightarrow> map sint (map word_of_int vs :: 'a::len word list) = vs"
  by (induction vs) (simp_all add: fits_def signed_of_int signed_take_bit_int_eq_self)

lemma TileOp_print_text:
  "TileOp_print op =
     TileOp_text (valueName (getTensor op)) (map sint (TileOp.getOffsets op))
       (map sint (getSizes op)) (map sint (getStrides op)) (getResultType op)"
  by (simp add: TileOp_print_def TileOp_text_def printIntegers_def)

section \<open>TileOp: the claims on its text\<close>

text \<open>
  C6 as stated: every valid \<^verbatim>\<open>TileOp\<close> is printed and parsed back to an operation with
  the same source operand, offsets, sizes, strides and result type. The printer writes
  the result type only, and the parser resolves the operand at the original type this
  result type records; \<^verbatim>\<open>TileOp::verify\<close> does not relate the two. An operation whose
  operand is a tensor of four elements and whose result type records a tensor of eight
  passes \<^verbatim>\<open>verify\<close>, and its text is rejected where the operand is defined.
\<close>

theorem TileOp_roundtrip_counterexample:
  "TileOp_verify tile_of_other1 = success \<and>
   scope_other1 (valueName (getTensor tile_of_other1)) =
     Some (RankedTensorType (getType (getTensor tile_of_other1))) \<and>
   TileOp_parse scope_other1 (TileOp_print tile_of_other1) = None"
  using TileOp_parse_text [where rest = "[]" and scope = scope_other1]
  by (simp add: TileOp_print_text TileOp_verify_def resolveOperand_def getRank_def
      tile_fixture_defs fits_def)

text \<open>
  C6, amended. For every \<^verbatim>\<open>TileOp\<close>, valid ones included, whose source operand has the
  type that its result type records as the original type, and is defined with that type
  in the scope of the parser: parsing the printed text yields the operation with the
  same source operand, offsets, sizes, strides and result type, and leaves the text
  that follows. The other attributes of the operation are not printed, so the parsed
  operation has none.
\<close>

theorem TileOp_print_parse_roundtrip:
  assumes scope: "scope (valueName (getTensor op)) = Some (RankedTensorType (getType (getTensor op)))"
    and ty: "getType (getTensor op) = getOriginalType (getResultType op)"
  shows "TileOp_parse scope (TileOp_print op @ rest) = Some (op\<lparr>getAttrs := []\<rparr>, rest)"
proof -
  have tensor: "\<lparr>valueName = valueName (getTensor op),
      getType = getOriginalType (getResultType op)\<rparr> = getTensor op"
    using ty by (intro TypedValue.equality) simp_all
  have "\<lparr>getTensor = getTensor op, TileOp.getOffsets = TileOp.getOffsets op,
      getSizes = getSizes op, getStrides = getStrides op, getAttrs = [],
      getResultType = getResultType op\<rparr> = op\<lparr>getAttrs := []\<rparr>"
    by (intro TileOp.equality) simp_all
  with scope ty tensor show ?thesis
    by (simp add: TileOp_print_text TileOp_parse_text resolveOperand_def
        list_all_fits_sint [where 'a = 32, simplified]
        list_all_fits_sint [where 'a = 64, simplified] map_word_of_int_sint)
qed

theorem TileOp_print_parse_roundtrip_witness:
  "TileOp_verify tile_of_full1 = success \<and>
   TileOp_print tile_of_full1 =
     [PercentIdentifier ''t'', LSquare, Minus, IntegerLiteral 1, RSquare,
      LSquare, IntegerLiteral 2, RSquare, LSquare, IntegerLiteral 4294967296, RSquare,
      Colon, TypeToken (TiledTensorType (tiled tile1 full1))] \<and>
   TileOp_parse scope_full1 (TileOp_print tile_of_full1 @ []) =
     Some (tile_of_full1\<lparr>getAttrs := []\<rparr>, [])"
proof -
  have scope: "scope_full1 (valueName (getTensor tile_of_full1)) =
      Some (RankedTensorType (getType (getTensor tile_of_full1)))"
    by (simp add: tile_fixture_defs)
  have ty: "getType (getTensor tile_of_full1) = getOriginalType (getResultType tile_of_full1)"
    by (simp add: tile_fixture_defs)
  have valid: "TileOp_verify tile_of_full1 = success"
    by (simp add: TileOp_verify_def getRank_def tile_fixture_defs)
  have printed: "TileOp_print tile_of_full1 =
     [PercentIdentifier ''t'', LSquare, Minus, IntegerLiteral 1, RSquare,
      LSquare, IntegerLiteral 2, RSquare, LSquare, IntegerLiteral 4294967296, RSquare,
      Colon, TypeToken (TiledTensorType (tiled tile1 full1))]"
    by (simp add: TileOp_print_def printIntegers_def printIntegerList_def printInteger_def
        tile_fixture_defs)
  from valid printed
    TileOp_print_parse_roundtrip [where scope = scope_full1 and op = tile_of_full1
      and rest = "[]", OF scope ty]
  show ?thesis
    by blast
qed

text \<open>
  C10. In the data model and in the grammar of \<^verbatim>\<open>TileOp\<close>, offsets and sizes are
  32-bit integers and strides are 64-bit integers. A text of the grammar whose operand
  resolves is accepted exactly when every offset and size literal is representable in
  32 bits and every stride literal in 64 bits, and the operation parsed holds the
  literals; and in every operation, parsed or constructed, each offset and size is a
  32-bit value and each stride a 64-bit value.
\<close>

theorem TileOp_integer_widths:
  assumes scope: "scope name = Some (RankedTensorType (getOriginalType ty))"
  shows
    "(TileOp_parse scope (TileOp_text name offsets sizes strides ty) \<noteq> None \<longleftrightarrow>
        list_all (fits 32) offsets \<and> list_all (fits 32) sizes \<and> list_all (fits 64) strides) \<and>
     (\<forall>op rest. TileOp_parse scope (TileOp_text name offsets sizes strides ty) = Some (op, rest)
        \<longrightarrow> map sint (TileOp.getOffsets op) = offsets \<and> map sint (getSizes op) = sizes \<and>
            map sint (getStrides op) = strides) \<and>
     list_all (fits 32) (map sint (TileOp.getOffsets op')) \<and>
     list_all (fits 32) (map sint (getSizes op')) \<and>
     list_all (fits 64) (map sint (getStrides op'))"
  using TileOp_parse_text [where rest = "[]" and scope = scope and name = name
      and offsets = offsets and sizes = sizes and strides = strides and ty = ty]
    map_sint_word_of_int [where 'a = 32, simplified, of offsets]
    map_sint_word_of_int [where 'a = 32, simplified, of sizes]
    map_sint_word_of_int [where 'a = 64, simplified, of strides]
    list_all_fits_sint [where 'a = 32, simplified]
    list_all_fits_sint [where 'a = 64, simplified]
  by (auto simp add: scope resolveOperand_def split: if_splits)

theorem TileOp_integer_widths_witness:
  "TileOp_parse scope_full1
     (TileOp_text ''t'' [2147483647] [- 2147483648] [2147483648] (tiled tile1 full1)) \<noteq> None \<and>
   TileOp_parse scope_full1
     (TileOp_text ''t'' [2147483648] [2] [1] (tiled tile1 full1)) = None \<and>
   TileOp_parse scope_full1
     (TileOp_text ''t'' [0] [- 2147483649] [1] (tiled tile1 full1)) = None \<and>
   TileOp_parse scope_full1
     (TileOp_text ''t'' [0] [2] [9223372036854775807] (tiled tile1 full1)) \<noteq> None \<and>
   TileOp_parse scope_full1
     (TileOp_text ''t'' [0] [2] [9223372036854775808] (tiled tile1 full1)) = None"
proof -
  have scope: "scope_full1 ''t'' = Some (RankedTensorType (getOriginalType (tiled tile1 full1)))"
    by (simp add: tile_fixture_defs)
  show ?thesis
    using
      TileOp_integer_widths [where scope = scope_full1 and name = "''t''"
        and ty = "tiled tile1 full1" and offsets = "[2147483647]" and sizes = "[- 2147483648]"
        and strides = "[2147483648]", OF scope, THEN conjunct1]
      TileOp_integer_widths [where scope = scope_full1 and name = "''t''"
        and ty = "tiled tile1 full1" and offsets = "[2147483648]" and sizes = "[2]"
        and strides = "[1]", OF scope, THEN conjunct1]
      TileOp_integer_widths [where scope = scope_full1 and name = "''t''"
        and ty = "tiled tile1 full1" and offsets = "[0]" and sizes = "[- 2147483649]"
        and strides = "[1]", OF scope, THEN conjunct1]
      TileOp_integer_widths [where scope = scope_full1 and name = "''t''"
        and ty = "tiled tile1 full1" and offsets = "[0]" and sizes = "[2]"
        and strides = "[9223372036854775807]", OF scope, THEN conjunct1]
      TileOp_integer_widths [where scope = scope_full1 and name = "''t''"
        and ty = "tiled tile1 full1" and offsets = "[0]" and sizes = "[2]"
        and strides = "[9223372036854775808]", OF scope, THEN conjunct1]
    by (simp add: fits_def del: not_None_eq)
qed

end
